theory Spec2Isabelle
  imports Main "HOL-Library.Word"
begin

section \<open>Python strings\<close>

text \<open>
  A Python \<open>str\<close> is a sequence of Unicode code points; it is modelled as a list of
  natural numbers. \<open>lit\<close> turns an ASCII literal into such a list.
\<close>

type_synonym str = "nat list"

definition lit :: "string \<Rightarrow> str" where
  "lit s = map of_char s"

text \<open>
  \<open>str.isspace\<close> for one code point: the code points CPython treats as whitespace
  (bidirectional class WS, B or S, or category Zs).
\<close>

definition isspace :: "nat \<Rightarrow> bool" where
  "isspace c \<longleftrightarrow>
     (9 \<le> c \<and> c \<le> 13) \<or> (28 \<le> c \<and> c \<le> 32) \<or> c = 133 \<or> c = 160 \<or> c = 5760
     \<or> (8192 \<le> c \<and> c \<le> 8202) \<or> c = 8232 \<or> c = 8233 \<or> c = 8239 \<or> c = 8287
     \<or> c = 12288"

text \<open>\<open>str.strip()\<close> without argument removes leading and trailing whitespace.\<close>

definition strip :: "str \<Rightarrow> str" where
  "strip s = rev (dropWhile isspace (rev (dropWhile isspace s)))"

text \<open>
  \<open>str.lower()\<close>, per code point. The table is CPython's on the ASCII and Latin-1
  range; beyond it only the two code points whose lowercase form contains an ASCII letter
  are listed (U+0130 and the Kelvin sign U+212A), every other code point is left as it is.
  No other code point lowers to an ASCII letter, so whether the lowered text equals one
  of the ASCII trigger phrases of \<open>process_message\<close> is decided as CPython decides it.
\<close>

definition lower_cp :: "nat \<Rightarrow> nat list" where
  "lower_cp c =
     (if 65 \<le> c \<and> c \<le> 90 then [c + 32]
      else if 192 \<le> c \<and> c \<le> 222 \<and> c \<noteq> 215 then [c + 32]
      else if c = 304 then [105, 775]
      else if c = 8490 then [107]
      else [c])"

definition lower :: "str \<Rightarrow> str" where
  "lower s = concat (map lower_cp s)"

text \<open>Python values that occur in the user-context dictionary, and their f-string form.\<close>

datatype pyval = PyStr str | PyNone

fun format_val :: "pyval \<Rightarrow> str" where
  "format_val (PyStr s) = s"
| "format_val PyNone = lit ''None''"

fun truthy :: "pyval \<Rightarrow> bool" where
  "truthy (PyStr s) = (s \<noteq> [])"
| "truthy PyNone = False"

text \<open>\<open>a or b\<close>: the first operand when it is truthy, else the second.\<close>

definition py_or :: "pyval \<Rightarrow> pyval \<Rightarrow> pyval" where
  "py_or a b = (if truthy a then a else b)"

fun of_optional :: "str option \<Rightarrow> pyval" where
  "of_optional None = PyNone"
| "of_optional (Some s) = PyStr s"

text \<open>A \<open>dict\<close> with string keys, in insertion order; \<open>dict.get(key, default)\<close>.\<close>

type_synonym pydict = "(str \<times> pyval) list"

definition dict_get :: "pydict \<Rightarrow> str \<Rightarrow> pyval \<Rightarrow> pyval" where
  "dict_get d k dflt = (case map_of d k of None \<Rightarrow> dflt | Some v \<Rightarrow> v)"

text \<open>The exceptions (all subclasses of \<open>Exception\<close>) that the modelled calls raise.\<close>

datatype exception =
    UnicodeEncodeError
  | TypeError
  | AttributeError
  | HTTPStatusError nat
  | TransportError str
  | JSONDecodeError
  | AgentRunError str

section \<open>app/models/schemas.py\<close>

datatype MessageType = TEXT | IMAGE | VIDEO | AUDIO | FILE | LOCATION

datatype EventType = MESSAGE | MESSAGE_DELIVERED | MESSAGE_READ | USER_JOINED | USER_LEFT

text \<open>The value of each member of the string enumeration.\<close>

fun EventType_value :: "EventType \<Rightarrow> str" where
  "EventType_value MESSAGE = lit ''message''"
| "EventType_value MESSAGE_DELIVERED = lit ''message.delivered''"
| "EventType_value MESSAGE_READ = lit ''message.read''"
| "EventType_value USER_JOINED = lit ''user.joined''"
| "EventType_value USER_LEFT = lit ''user.left''"

text \<open>
  The fields \<open>timestamp\<close>, \<open>metadata\<close> and \<open>data\<close> of the incoming models are read by no
  function modelled here and are left out. The field \<open>id\<close> of \<open>User\<close> is named \<open>id'\<close>
  and the field \<open>text\<close> is named \<open>text'\<close>. Field names shared by two models are written
  qualified (\<open>Message.chat_id\<close>, \<open>MessageResponse.chat_id\<close>).
\<close>

text \<open>A \<open>datetime\<close> object, as \<open>datetime.utcnow()\<close> returns it; its value is read nowhere.\<close>

datatype datetime = utcnow

record User =
  id' :: str
  username :: "str option"
  first_name :: "str option"
  last_name :: "str option"
  language_code :: "str option"

record Message =
  message_id :: str
  from_user :: User
  chat_id :: str
  text' :: "str option"
  message_type :: MessageType
  reply_to_message_id :: "str option"

record WebhookEvent =
  event_id :: str
  event_type :: EventType
  message :: "Message option"

record MessageResponse =
  chat_id :: str
  text' :: str
  reply_to_message_id :: "str option"
  parse_mode :: "str option"
  disable_web_page_preview :: bool

record ActionResponse =
  success :: bool
  message :: "str option"
  data :: pydict

record ErrorResponse =
  error :: str
  message :: str
  details :: "pydict option"
  timestamp :: datetime


section \<open>Effects\<close>

text \<open>
  The calls that leave the process are recorded, in order, in a trace: the typing
  indicator (POST /actions), the message delivery (POST /messages) and the run of the
  AI provider with its prompt. What the outside world answers is given by an
  environment: the provider's outcome for a prompt, the outcome of a typing POST, and
  the outcome of the n-th delivery POST of the task (n counts the earlier ones).
\<close>

datatype effect =
    PostActions str
  | PostMessages MessageResponse
  | AgentRun str

text \<open>
  The object returned by \<open>agent.run\<close>: which of the attributes \<open>output\<close>, \<open>data\<close>
  and \<open>content\<close> it has, with their values, and its \<open>str()\<close> form (the field for
  \<open>output\<close> is named \<open>output'\<close>).
\<close>

record run_result =
  output' :: "str option"
  data :: "str option"
  content :: "str option"
  as_str :: str

type_synonym delivery_result = pydict

record env =
  agent_run :: "str \<Rightarrow> exception + run_result"
  post_actions :: "str \<Rightarrow> exception option"
  post_messages :: "nat \<Rightarrow> MessageResponse \<Rightarrow> exception + delivery_result"

text \<open>
  A coroutine takes the trace so far and returns either the exception it raised or its
  value, with the extended trace.
\<close>

type_synonym 'a io = "effect list \<Rightarrow> (exception + 'a) \<times> effect list"

definition return_io :: "'a \<Rightarrow> 'a io" where
  "return_io x t = (Inr x, t)"

text \<open>\<open>await m\<close> and then the rest; an exception raised by \<open>m\<close> skips the rest.\<close>

definition bind_io :: "'a io \<Rightarrow> ('a \<Rightarrow> 'b io) \<Rightarrow> 'b io" where
  "bind_io m f t = (case m t of (Inl e, t') \<Rightarrow> (Inl e, t') | (Inr x, t') \<Rightarrow> f x t')"

fun is_PostMessages :: "effect \<Rightarrow> bool" where
  "is_PostMessages (PostMessages mr) = True"
| "is_PostMessages (PostActions c) = False"
| "is_PostMessages (AgentRun p) = False"

section \<open>app/core/config.py\<close>

text \<open>
  The settings object: the fields that the class \<open>Settings\<close> declares, and a value for
  each. The class is configured with \<open>extra="ignore"\<close>, so no other name becomes an
  attribute, and reading one raises \<open>AttributeError\<close>.
\<close>

definition Settings_fields :: "str list" where
  "Settings_fields =
     [lit ''app_name'', lit ''app_version'', lit ''debug'', lit ''host'', lit ''port'',
      lit ''openai_api_key'',
      lit ''telex_api_key'', lit ''telex_webhook_secret'', lit ''telex_bot_id'', lit ''telex_api_url'',
      lit ''redis_url'', lit ''redis_enabled'',
      lit ''cors_origins'', lit ''cors_allow_credentials'', lit ''cors_allow_methods'',
      lit ''cors_allow_headers'',
      lit ''log_level'']"

type_synonym Settings = "str \<Rightarrow> pyval"

definition Settings_getattr :: "Settings \<Rightarrow> str \<Rightarrow> exception + pyval" where
  "Settings_getattr settings name =
     (if name \<in> set Settings_fields then Inr (settings name) else Inl AttributeError)"

section \<open>app/services/yoruba_agent.py\<close>

text \<open>
  The state of the modules: the settings, and the global \<open>_agent_instance\<close>, which is
  \<open>None\<close> when the module is loaded (line 212).
\<close>

datatype YorubaAgent = YorubaAgent

record module_state =
  settings :: Settings
  agent_instance :: "YorubaAgent option"

text \<open>
  \<open>YorubaAgent.__init__\<close>: it reads \<open>settings.gemini_api_key\<close> first; an exception is
  logged and raised again. The construction of the model and of the agent that follows
  is taken to succeed.
\<close>

definition YorubaAgent_init :: "Settings \<Rightarrow> exception + YorubaAgent" where
  "YorubaAgent_init cfg =
     (case Settings_getattr cfg (lit ''gemini_api_key'') of
        Inl e \<Rightarrow> Inl e
      | Inr gemini_api_key \<Rightarrow> Inr YorubaAgent)"

text \<open>
  \<open>get_yoruba_agent\<close>: the instance, constructed when the global is \<open>None\<close>, and the
  new value of the global.
\<close>

definition get_yoruba_agent :: "module_state \<Rightarrow> (exception + YorubaAgent) \<times> YorubaAgent option" where
  "get_yoruba_agent g =
     (case agent_instance g of
        None \<Rightarrow>
          (case YorubaAgent_init (settings g) of
             Inl e \<Rightarrow> (Inl e, None)
           | Inr agent \<Rightarrow> (Inr agent, Some agent))
      | Some agent \<Rightarrow> (Inr agent, Some agent))"

text \<open>
  The provider behind an agent is the \<open>agent_run\<close> of the environment; the methods of the
  agent follow.
\<close>

definition agent_apology :: str where
  "agent_apology =
     lit ''Mo d'' @ [249] @ lit ''p'' @ [7865, 769]
     @ lit '' (Thank you) for your question. I encountered an issue while processing it. Please try rephrasing your question or ask about a specific aspect of Yoruba history and culture.''"

text \<open>Lines 108 to 111 of \<open>get_response\<close>: the question with the user context added.\<close>

definition enhanced_question :: "str \<Rightarrow> pydict option \<Rightarrow> str" where
  "enhanced_question question user_context =
     (case user_context of
        None \<Rightarrow> question
      | Some d \<Rightarrow>
          if d = [] then question
          else lit ''Question from ''
               @ format_val (dict_get d (lit ''name'') (PyStr (lit ''friend'')))
               @ lit '': '' @ question)"

text \<open>Lines 118 to 125: the first of the attributes that the result has.\<close>

definition response_text_of :: "run_result \<Rightarrow> str" where
  "response_text_of result =
     (case output' result of Some v \<Rightarrow> v
      | None \<Rightarrow> (case run_result.data result of Some v \<Rightarrow> v
      | None \<Rightarrow> (case content result of Some v \<Rightarrow> v
      | None \<Rightarrow> as_str result)))"

text \<open>The body of the \<open>try\<close> block of \<open>get_response\<close>.\<close>

definition get_response_try :: "env \<Rightarrow> str \<Rightarrow> pydict option \<Rightarrow> str io" where
  "get_response_try env question user_context t =
     (let prompt = enhanced_question question user_context in
      case agent_run env prompt of
        Inl e \<Rightarrow> (Inl e, t @ [AgentRun prompt])
      | Inr result \<Rightarrow> (Inr (response_text_of result), t @ [AgentRun prompt]))"

text \<open>\<open>get_response\<close>: \<open>except Exception\<close> turns every exception into the apology.\<close>

definition get_response :: "env \<Rightarrow> str \<Rightarrow> pydict option \<Rightarrow> str io" where
  "get_response env question user_context t =
     (case get_response_try env question user_context t of
        (Inl e, t') \<Rightarrow> (Inr agent_apology, t')
      | (Inr response_text, t') \<Rightarrow> (Inr response_text, t'))"

definition get_greeting_response :: str where
  "get_greeting_response =
     [7864] @ lit '' k'' @ [225, 224] @ lit ''b'' @ [7885, 768] @ lit ''! (Welcome!) ''
     @ [127775, 10, 10]
     @ lit ''I am Orunmila, your guide to Yoruba history and culture. I'' @ [39]
     @ lit ''m here to answer your questions about:'' @ [10, 10, 8226]
     @ lit '' Yoruba history and ancient kingdoms'' @ [10, 8226]
     @ lit '' Cultural practices and traditions'' @ [10, 8226]
     @ lit '' Religion and spirituality (Ifa, Orisha)'' @ [10, 8226]
     @ lit '' Language, proverbs, and sayings'' @ [10, 8226]
     @ lit '' Art, music, and dance'' @ [10, 8226]
     @ lit '' Festivals and celebrations'' @ [10, 8226]
     @ lit '' Notable historical figures'' @ [10, 10]
     @ lit ''Feel free to ask me anything about Yoruba heritage!''"

definition get_help_response :: str where
  "get_help_response =
     [128218] @ lit '' **How to Ask Questions**'' @ [10, 10]
     @ lit ''Here are some example questions you can ask:'' @ [10, 10]
     @ lit ''**History:**'' @ [10, 8226]
     @ lit '' Who was Oduduwa?'' @ [10, 8226]
     @ lit '' Tell me about the Oyo Empire'' @ [10, 8226]
     @ lit '' What is the significance of Ile-Ife?'' @ [10, 10]
     @ lit ''**Culture:**'' @ [10, 8226]
     @ lit '' What are Yoruba naming ceremonies like?'' @ [10, 8226]
     @ lit '' Explain the chieftaincy system'' @ [10, 10]
     @ lit ''**Religion:**'' @ [10, 8226]
     @ lit '' Who is Sango?'' @ [10, 8226]
     @ lit '' What is Ifa divination?'' @ [10, 10]
     @ lit ''**Arts:**'' @ [10, 8226]
     @ lit '' What are Gelede masks?'' @ [10, 8226]
     @ lit '' Tell me about Adire cloth'' @ [10, 10]
     @ lit ''**Language:**'' @ [10, 8226]
     @ lit '' Share a Yoruba proverb'' @ [10, 8226]
     @ lit '' How do you say hello in Yoruba?'' @ [10, 10]
     @ lit ''Just ask your question naturally, and I'' @ [39]
     @ lit ''ll do my best to help!''"

section \<open>app/services/telex_service.py\<close>

text \<open>
  \<open>send_message\<close>: one POST to /messages. The environment says whether the POST, the
  status check or the decoding of the reply raised; both \<open>except\<close> clauses log and
  raise again, so the exception reaches the caller.
\<close>

definition send_message :: "env \<Rightarrow> MessageResponse \<Rightarrow> delivery_result io" where
  "send_message env message_response t =
     (case post_messages env (length (filter is_PostMessages t)) message_response of
        Inl e \<Rightarrow> (Inl e, t @ [PostMessages message_response])
      | Inr result \<Rightarrow> (Inr result, t @ [PostMessages message_response]))"

definition send_text_message :: "env \<Rightarrow> str \<Rightarrow> str \<Rightarrow> str option \<Rightarrow> delivery_result io" where
  "send_text_message env chat txt reply_to =
     send_message env
       \<lparr>MessageResponse.chat_id = chat, text' = txt, reply_to_message_id = reply_to,
        parse_mode = Some (lit ''Markdown''), disable_web_page_preview = False\<rparr>"

text \<open>\<open>send_typing_action\<close>: one POST to /actions; an exception is logged and dropped.\<close>

definition send_typing_action :: "env \<Rightarrow> str \<Rightarrow> unit io" where
  "send_typing_action env chat t =
     (case post_actions env chat of
        None \<Rightarrow> (Inr (), t @ [PostActions chat])
      | Some e \<Rightarrow> (Inr (), t @ [PostActions chat]))"

text \<open>
  \<open>str.encode()\<close>: UTF-8, which raises on a surrogate code point (U+D800 to U+DFFF).
\<close>

type_synonym byte = "8 word"

definition encode_cp :: "nat \<Rightarrow> exception + byte list" where
  "encode_cp c =
     (if c < 128 then Inr [of_nat c]
      else if c < 2048 then Inr [of_nat (192 + c div 64), of_nat (128 + c mod 64)]
      else if 55296 \<le> c \<and> c \<le> 57343 then Inl UnicodeEncodeError
      else if c < 65536 then
        Inr [of_nat (224 + c div 4096), of_nat (128 + c div 64 mod 64), of_nat (128 + c mod 64)]
      else
        Inr [of_nat (240 + c div 262144), of_nat (128 + c div 4096 mod 64),
             of_nat (128 + c div 64 mod 64), of_nat (128 + c mod 64)])"

fun encode :: "str \<Rightarrow> exception + byte list" where
  "encode [] = Inr []"
| "encode (c # cs) =
     (case encode_cp c of
        Inl e \<Rightarrow> Inl e
      | Inr bs \<Rightarrow> (case encode cs of Inl e \<Rightarrow> Inl e | Inr rest \<Rightarrow> Inr (bs @ rest)))"

text \<open>\<open>hexdigest()\<close>: two lowercase hexadecimal digits for each byte of the digest.\<close>

definition hex_digit :: "nat \<Rightarrow> nat" where
  "hex_digit n = (if n < 10 then 48 + n else 87 + n)"

definition hexdigest :: "byte list \<Rightarrow> str" where
  "hexdigest bs = concat (map (\<lambda>b. [hex_digit (unat b div 16), hex_digit (unat b mod 16)]) bs)"

text \<open>
  \<open>hmac.compare_digest\<close> on two \<open>str\<close>: a \<open>TypeError\<close> unless both are ASCII, else
  whether they are equal.
\<close>

definition compare_digest :: "str \<Rightarrow> str \<Rightarrow> exception + bool" where
  "compare_digest a b =
     (if list_all (\<lambda>c. c < 128) a \<and> list_all (\<lambda>c. c < 128) b then Inr (a = b)
      else Inl TypeError)"

text \<open>
  The body of the \<open>try\<close> block of \<open>validate_webhook_signature\<close>. The keyed hash of
  \<open>hashlib\<close> and \<open>hmac\<close> is a parameter: \<open>hmac_sha256 key msg\<close> is the digest.
\<close>

definition validate_webhook_signature_try ::
    "(byte list \<Rightarrow> byte list \<Rightarrow> byte list) \<Rightarrow> str \<Rightarrow> str \<Rightarrow> str \<Rightarrow> exception + bool" where
  "validate_webhook_signature_try hmac_sha256 telex_webhook_secret payload signature =
     (case encode telex_webhook_secret of
        Inl e \<Rightarrow> Inl e
      | Inr key \<Rightarrow>
          (case encode payload of
             Inl e \<Rightarrow> Inl e
           | Inr msg \<Rightarrow> compare_digest signature (hexdigest (hmac_sha256 key msg))))"

text \<open>
  \<open>validate_webhook_signature\<close>, with \<open>settings.telex_webhook_secret\<close> as a parameter.
\<close>

definition validate_webhook_signature ::
    "(byte list \<Rightarrow> byte list \<Rightarrow> byte list) \<Rightarrow> str \<Rightarrow> str \<Rightarrow> str \<Rightarrow> bool" where
  "validate_webhook_signature hmac_sha256 telex_webhook_secret payload signature =
     (if telex_webhook_secret = [] then True
      else
        (case validate_webhook_signature_try hmac_sha256 telex_webhook_secret payload signature of
           Inl e \<Rightarrow> False
         | Inr valid \<Rightarrow> valid))"

section \<open>app/api/webhook.py\<close>

datatype background_task = process_message_task WebhookEvent

record HTTPException =
  status_code :: nat
  detail :: str

record Request =
  headers :: "(str \<times> str) list"
  body :: str

text \<open>
  An enumeration member inside an f-string. The project needs Python 3.11 or later,
  where a member of a \<open>(str, Enum)\<close> class formats as class name, dot, member name.
\<close>

fun EventType_format :: "EventType \<Rightarrow> str" where
  "EventType_format MESSAGE = lit ''EventType.MESSAGE''"
| "EventType_format MESSAGE_DELIVERED = lit ''EventType.MESSAGE_DELIVERED''"
| "EventType_format MESSAGE_READ = lit ''EventType.MESSAGE_READ''"
| "EventType_format USER_JOINED = lit ''EventType.USER_JOINED''"
| "EventType_format USER_LEFT = lit ''EventType.USER_LEFT''"

text \<open>
  \<open>handle_telex_webhook\<close>: the response, or the \<open>HTTPException\<close> raised, and the
  background tasks added. The request is a parameter that the handler does not read:
  the lines that would check its signature are commented out.
\<close>

definition handle_telex_webhook ::
    "WebhookEvent \<Rightarrow> Request \<Rightarrow> (HTTPException + ActionResponse) \<times> background_task list" where
  "handle_telex_webhook event request =
     (if event_type event = MESSAGE \<and> WebhookEvent.message event \<noteq> None then
        (Inr \<lparr>success = True,
              ActionResponse.message = Some (lit ''Message received and being processed''),
              ActionResponse.data = []\<rparr>,
         [process_message_task event])
      else if event_type event \<in> set [MESSAGE_DELIVERED, MESSAGE_READ] then
        (Inr \<lparr>success = True,
              ActionResponse.message =
                Some (lit ''Event '' @ EventType_format (event_type event) @ lit '' acknowledged''),
              ActionResponse.data = []\<rparr>,
         [])
      else if event_type event \<in> set [USER_JOINED, USER_LEFT] then
        (Inr \<lparr>success = True,
              ActionResponse.message =
                Some (lit ''Event '' @ EventType_format (event_type event) @ lit '' acknowledged''),
              ActionResponse.data = []\<rparr>,
         [])
      else
        (Inr \<lparr>success = True,
              ActionResponse.message = Some (lit ''Event type not handled''),
              ActionResponse.data = []\<rparr>,
         []))"

definition webhook_apology :: str where
  "webhook_apology =
     lit ''Mo t'' @ [7885] @ lit ''r'' @ [7885]
     @ lit '' gafara (I apologize). An error occurred while processing your message. Please try again.''"

text \<open>
  The three branches of \<open>process_message\<close> at lines 109, 112 and 115, chosen from the
  stripped message text.
\<close>

datatype Intent = Greeting | Help | General

definition intent_of :: "str \<Rightarrow> Intent" where
  "intent_of message_text =
     (if lower message_text \<in> set [lit ''/start'', lit ''hello'', lit ''hi'', lit ''hey'', lit ''greetings'']
      then Greeting
      else if lower message_text \<in> set [lit ''/help'', lit ''help'', lit ''what can you do'']
      then Help
      else General)"

text \<open>Lines 117 to 121: the user context of a general question.\<close>

definition user_context_of :: "User \<Rightarrow> pydict" where
  "user_context_of user =
     [(lit ''name'',
         py_or (py_or (of_optional (first_name user)) (of_optional (username user)))
               (PyStr (lit ''friend''))),
      (lit ''user_id'', PyStr (id' user)),
      (lit ''language'', of_optional (language_code user))]"

text \<open>Lines 109 to 124: the text of the reply.\<close>

definition response_text_for :: "env \<Rightarrow> User \<Rightarrow> str \<Rightarrow> str io" where
  "response_text_for env user message_text =
     (case intent_of message_text of
        Greeting \<Rightarrow> return_io get_greeting_response
      | Help \<Rightarrow> return_io get_help_response
      | General \<Rightarrow> get_response env message_text (Some (user_context_of user)))"

text \<open>
  The body of the outer \<open>try\<close> block of \<open>process_message\<close>. The call of
  \<open>get_yoruba_agent\<close> at line 102 comes before the typing indicator; the global it may
  set is not needed afterwards, since the call leaves it as it was
  (lemma \<open>get_yoruba_agent_global\<close>).
\<close>

definition process_message_try :: "module_state \<Rightarrow> env \<Rightarrow> WebhookEvent \<Rightarrow> unit io" where
  "process_message_try g env event =
     (case WebhookEvent.message event of
        None \<Rightarrow> return_io ()
      | Some msg \<Rightarrow>
          (case Message.text' msg of
             None \<Rightarrow> return_io ()
           | Some txt \<Rightarrow>
               if txt = [] then return_io ()
               else
                 let user = from_user msg;
                     chat = Message.chat_id msg;
                     message_text = strip txt
                 in bind_io (\<lambda>t. (fst (get_yoruba_agent g), t)) (\<lambda>agent.
                    bind_io (send_typing_action env chat) (\<lambda>_.
                    bind_io (response_text_for env user message_text) (\<lambda>response_text.
                    bind_io (send_text_message env chat response_text (Some (message_id msg))) (\<lambda>_.
                    return_io ()))))))"

text \<open>
  \<open>process_message\<close>: on an exception of the body, one more \<open>send_text_message\<close> with
  the apology, whose own exception is dropped by the bare \<open>except\<close>. With no message
  the name \<open>chat_id\<close> is unbound in the handler, and the resulting error is dropped too.
\<close>

definition process_message :: "module_state \<Rightarrow> env \<Rightarrow> WebhookEvent \<Rightarrow> unit io" where
  "process_message g env event t =
     (case process_message_try g env event t of
        (Inr u, t') \<Rightarrow> (Inr (), t')
      | (Inl e, t') \<Rightarrow>
          (case WebhookEvent.message event of
             None \<Rightarrow> (Inr (), t')
           | Some msg \<Rightarrow>
               (case send_text_message env (Message.chat_id msg) webhook_apology
                       (Some (message_id msg)) t' of
                  (Inl e', t'') \<Rightarrow> (Inr (), t'')
                | (Inr r, t'') \<Rightarrow> (Inr (), t''))))"

text \<open>What a background task does once the response has been sent: its trace.\<close>

fun run_task :: "module_state \<Rightarrow> env \<Rightarrow> background_task \<Rightarrow> effect list" where
  "run_task g env (process_message_task event) = snd (process_message g env event [])"

section \<open>main.py: the webhook endpoint\<close>

text \<open>
  The content of the body of a request to /webhook/telex, decoded and before validation:
  the two required fields may be absent, and \<open>event_type\<close> is any string. The nested
  message is taken as already validated. The decoding of the body is done by the
  framework and is not modelled: the endpoint below takes the decoded content together
  with the request, whose \<open>body\<close> is the text it was decoded from.
\<close>

record raw_event =
  raw_event_id :: "str option"
  raw_event_type :: "str option"
  raw_message :: "Message option"

text \<open>A value of the enumeration field is accepted when it is the value of a member.\<close>

definition EventType_of_value :: "str \<Rightarrow> EventType option" where
  "EventType_of_value v =
     find (\<lambda>e. EventType_value e = v)
       [MESSAGE, MESSAGE_DELIVERED, MESSAGE_READ, USER_JOINED, USER_LEFT]"

text \<open>
  Validation against the model \<open>WebhookEvent\<close>. A failure is a
  \<open>RequestValidationError\<close>; of its error list only the name of the failing field is kept.
\<close>

definition validate_WebhookEvent :: "raw_event \<Rightarrow> str + WebhookEvent" where
  "validate_WebhookEvent raw =
     (case raw_event_id raw of
        None \<Rightarrow> Inl (lit ''event_id'')
      | Some i \<Rightarrow>
          (case raw_event_type raw of
             None \<Rightarrow> Inl (lit ''event_type'')
           | Some v \<Rightarrow>
               (case EventType_of_value v of
                  None \<Rightarrow> Inl (lit ''event_type'')
                | Some et \<Rightarrow>
                    Inr \<lparr>event_id = i, event_type = et, WebhookEvent.message = raw_message raw\<rparr>)))"

text \<open>
  \<open>model_dump()\<close> of an \<open>ErrorResponse\<close>: a dictionary of the four fields, in which the
  time stamp is still a \<open>datetime\<close> object.
\<close>

datatype dumped = DStr str | DNone | DDict pydict | DDatetime datetime

definition model_dump :: "ErrorResponse \<Rightarrow> (str \<times> dumped) list" where
  "model_dump r =
     [(lit ''error'', DStr (error r)),
      (lit ''message'', DStr (ErrorResponse.message r)),
      (lit ''details'', (case details r of None \<Rightarrow> DNone | Some d \<Rightarrow> DDict d)),
      (lit ''timestamp'', DDatetime (timestamp r))]"

text \<open>\<open>json.dumps\<close> accepts strings, \<open>None\<close> and dictionaries of them, not a \<open>datetime\<close>.\<close>

fun json_serializable :: "dumped \<Rightarrow> bool" where
  "json_serializable (DStr s) = True"
| "json_serializable DNone = True"
| "json_serializable (DDict d) = True"
| "json_serializable (DDatetime d) = False"

datatype http_response =
    Response200 ActionResponse
  | ResponseJSON nat "(str \<times> dumped) list"
  | ResponseHTTPException HTTPException
  | Response500

fun is_Response200 :: "http_response \<Rightarrow> bool" where
  "is_Response200 (Response200 r) = True"
| "is_Response200 (ResponseJSON code dumped_content) = False"
| "is_Response200 (ResponseHTTPException h) = False"
| "is_Response200 Response500 = False"

text \<open>
  \<open>JSONResponse(status_code, content)\<close> renders its content with \<open>json.dumps\<close> when it is
  constructed, and raises \<open>TypeError\<close> on a value that cannot be serialised.
\<close>

definition JSONResponse :: "nat \<Rightarrow> (str \<times> dumped) list \<Rightarrow> exception + http_response" where
  "JSONResponse code dumped_content =
     (if list_all (\<lambda>kv. json_serializable (snd kv)) dumped_content
      then Inr (ResponseJSON code dumped_content)
      else Inl TypeError)"

text \<open>\<open>validation_exception_handler\<close>, given the error list of the exception.\<close>

definition validation_exception_handler :: "pyval \<Rightarrow> exception + http_response" where
  "validation_exception_handler errors =
     JSONResponse 422
       (model_dump
          \<lparr>error = lit ''ValidationError'',
           ErrorResponse.message = lit ''Request validation failed'',
           details = Some [(lit ''errors'', errors)],
           timestamp = utcnow\<rparr>)"

text \<open>
  The endpoint. A content that fails validation goes to \<open>validation_exception_handler\<close>
  and the route handler does not run. An exception that leaves that handler is answered
  by the server with status 500 (through \<open>general_exception_handler\<close>, which builds its
  response in the same way, or through the debug page); the body of that answer is not
  modelled. Otherwise the route handler runs.
\<close>

definition post_webhook_telex :: "raw_event \<Rightarrow> Request \<Rightarrow> http_response \<times> background_task list" where
  "post_webhook_telex raw request =
     (case validate_WebhookEvent raw of
        Inl field \<Rightarrow>
          (case validation_exception_handler (PyStr field) of
             Inl e \<Rightarrow> (Response500, [])
           | Inr response \<Rightarrow> (response, []))
      | Inr event \<Rightarrow>
          (case handle_telex_webhook event request of
             (Inl h, tasks) \<Rightarrow> (ResponseHTTPException h, tasks)
           | (Inr response, tasks) \<Rightarrow> (Response200 response, tasks)))"

section \<open>Sample inputs\<close>

text \<open>
  A sender, a message and a message event with a given text, an environment in which
  the provider answers and every POST succeeds, and one in which the provider and every
  POST fail.
\<close>

text \<open>
  The module state of a process that has just loaded its modules, with every setting
  the empty string, and the same with an agent instance put in place of \<open>None\<close>.
\<close>

definition process_start :: module_state where
  "process_start = \<lparr>settings = (\<lambda>name. PyStr []), agent_instance = None\<rparr>"

definition process_with_agent :: module_state where
  "process_with_agent = \<lparr>settings = (\<lambda>name. PyStr []), agent_instance = Some YorubaAgent\<rparr>"

text \<open>
  A request content with the two required fields and no message, and the JSON text of
  such a content (34 is the double quote).
\<close>

definition sample_raw :: "str \<Rightarrow> str \<Rightarrow> raw_event" where
  "sample_raw i v = \<lparr>raw_event_id = Some i, raw_event_type = Some v, raw_message = None\<rparr>"

definition sample_request :: "str \<Rightarrow> str \<Rightarrow> Request" where
  "sample_request i v =
     \<lparr>headers = [(lit ''Content-Type'', lit ''application/json'')],
      body = lit ''{'' @ [34] @ lit ''event_id'' @ [34] @ lit '': '' @ [34] @ i @ [34]
             @ lit '', '' @ [34] @ lit ''event_type'' @ [34] @ lit '': '' @ [34] @ v @ [34]
             @ lit ''}''\<rparr>"

definition sample_user :: User where
  "sample_user = \<lparr>id' = lit ''U1'', username = None, first_name = None, last_name = None, language_code = None\<rparr>"

definition sample_message :: "str option \<Rightarrow> Message" where
  "sample_message txt = \<lparr>message_id = lit ''M1'', from_user = sample_user, Message.chat_id = lit ''C1'',
     Message.text' = txt, message_type = TEXT, Message.reply_to_message_id = None\<rparr>"

definition sample_event :: "str option \<Rightarrow> WebhookEvent" where
  "sample_event txt = \<lparr>event_id = lit ''E1'', event_type = MESSAGE, WebhookEvent.message = Some (sample_message txt)\<rparr>"

definition env_ok :: env where
  "env_ok = \<lparr>agent_run = (\<lambda>p. Inr \<lparr>output' = Some (lit ''Oduduwa founded Ile-Ife.''), run_result.data = None, content = None, as_str = []\<rparr>),
     post_actions = (\<lambda>c. None), post_messages = (\<lambda>n mr. Inr [])\<rparr>"

definition env_down :: env where
  "env_down = \<lparr>agent_run = (\<lambda>p. Inl (AgentRunError (lit ''timeout''))),
     post_actions = (\<lambda>c. Some (TransportError [])), post_messages = (\<lambda>n mr. Inl (HTTPStatusError 500))\<rparr>"

text \<open>A stand-in for the keyed hash: the key followed by the message.\<close>

definition sample_hmac :: "byte list \<Rightarrow> byte list \<Rightarrow> byte list" where
  "sample_hmac key msg = key @ msg"

section \<open>Properties\<close>

subsection \<open>The service calls\<close>

lemma send_typing_action_eq: "send_typing_action env chat t = (Inr (), t @ [PostActions chat])"
  by (simp add: send_typing_action_def split: option.split)

lemma send_message_eq:
  "send_message env mr t = (post_messages env (length (filter is_PostMessages t)) mr, t @ [PostMessages mr])"
  by (simp add: send_message_def split: sum.split)

lemma get_response_eq:
  "get_response env q c t =
     (Inr (case agent_run env (enhanced_question q c) of
             Inl e \<Rightarrow> agent_apology | Inr r \<Rightarrow> response_text_of r),
      t @ [AgentRun (enhanced_question q c)])"
  by (simp add: get_response_def get_response_try_def Let_def split: sum.split)

lemma response_text_for_cases:
  "\<exists>s. response_text_for env user mt t = (Inr s, t)
     \<or> (\<exists>p. response_text_for env user mt t = (Inr s, t @ [AgentRun p]))"
  by (cases "intent_of mt") (simp_all add: response_text_for_def return_io_def get_response_eq)

lemma isspace_32: "isspace 32"
  by (simp add: isspace_def)

lemma lit_spaces: "lit ''   '' = [32, 32, 32]"
  by (simp add: lit_def)

lemma lit_hi: "lit ''hi'' = [104, 105]"
  by (simp add: lit_def)

lemma strip_hi: "strip (lit ''hi'') = lit ''hi''"
  by (simp add: lit_hi strip_def isspace_def)

lemma intent_hi: "intent_of (lit ''hi'') = Greeting"
  by (simp add: intent_of_def lower_def lit_def lower_cp_def)

subsection \<open>The agent instance\<close>

lemma gemini_api_key_not_declared: "lit ''gemini_api_key'' \<notin> set Settings_fields"
  by (simp add: Settings_fields_def) (simp add: lit_def)

text \<open>
  The class \<open>Settings\<close> declares no field \<open>gemini_api_key\<close>, so the construction of the
  agent raises, whatever the values of the settings; \<open>get_yoruba_agent\<close> raises as long
  as the global is \<open>None\<close>, and leaves the global as it was.
\<close>

lemma YorubaAgent_init_raises: "YorubaAgent_init cfg = Inl AttributeError"
  by (simp add: YorubaAgent_init_def Settings_getattr_def gemini_api_key_not_declared)

lemma get_yoruba_agent_eq:
  "get_yoruba_agent g =
     (case agent_instance g of None \<Rightarrow> Inl AttributeError | Some agent \<Rightarrow> Inr agent,
      agent_instance g)"
  by (simp add: get_yoruba_agent_def YorubaAgent_init_raises split: option.split)

lemma get_yoruba_agent_global: "snd (get_yoruba_agent g) = agent_instance g"
  by (simp add: get_yoruba_agent_eq)

subsection \<open>The background task on a message with a text\<close>

lemma process_message_try_no_agent:
  assumes "WebhookEvent.message event = Some msg" "Message.text' msg = Some txt" "txt \<noteq> []"
    and "agent_instance g = None"
  shows "process_message_try g env event t = (Inl AttributeError, t)"
  using assms
  by (simp add: process_message_try_def Let_def bind_io_def get_yoruba_agent_eq)

lemma process_message_try_text:
  assumes "WebhookEvent.message event = Some msg" "Message.text' msg = Some txt" "txt \<noteq> []"
    and "agent_instance g = Some agent"
    and "response_text_for env (from_user msg) (strip txt) (t @ [PostActions (Message.chat_id msg)])
           = (Inr response_text, t2)"
  shows "process_message_try g env event t =
     (case post_messages env (length (filter is_PostMessages t2))
            \<lparr>MessageResponse.chat_id = Message.chat_id msg, text' = response_text,
                 reply_to_message_id = Some (message_id msg),
                 parse_mode = Some (lit ''Markdown''), disable_web_page_preview = False\<rparr> of
        Inl e \<Rightarrow> Inl e | Inr r \<Rightarrow> Inr (),
      t2 @ [PostMessages \<lparr>MessageResponse.chat_id = Message.chat_id msg, text' = response_text,
                 reply_to_message_id = Some (message_id msg),
                 parse_mode = Some (lit ''Markdown''), disable_web_page_preview = False\<rparr>])"
  using assms
  by (simp add: process_message_try_def Let_def bind_io_def get_yoruba_agent_eq
        send_typing_action_eq send_text_message_def send_message_eq return_io_def
        split: sum.split)

lemma process_message_no_agent:
  assumes "WebhookEvent.message event = Some msg" "Message.text' msg = Some txt" "txt \<noteq> []"
    and "agent_instance g = None"
  shows "process_message g env event [] =
           (Inr (), [PostMessages \<lparr>MessageResponse.chat_id = Message.chat_id msg, text' = webhook_apology,
                 reply_to_message_id = Some (message_id msg),
                 parse_mode = Some (lit ''Markdown''), disable_web_page_preview = False\<rparr>])"
  using process_message_try_no_agent [OF assms, of env "[]"] assms(1)
  by (simp add: process_message_def send_text_message_def send_message_eq split: sum.split)

lemma process_message_with_agent:
  assumes "WebhookEvent.message event = Some msg" "Message.text' msg = Some txt" "txt \<noteq> []"
    and "agent_instance g = Some agent"
    and "response_text_for env (from_user msg) (strip txt) [PostActions (Message.chat_id msg)]
           = (Inr response_text, t2)"
  shows "process_message g env event [] =
           (Inr (),
            t2 @ [PostMessages \<lparr>MessageResponse.chat_id = Message.chat_id msg, text' = response_text,
                 reply_to_message_id = Some (message_id msg),
                 parse_mode = Some (lit ''Markdown''), disable_web_page_preview = False\<rparr>]
            @ (case post_messages env 0
                      \<lparr>MessageResponse.chat_id = Message.chat_id msg, text' = response_text,
                 reply_to_message_id = Some (message_id msg),
                 parse_mode = Some (lit ''Markdown''), disable_web_page_preview = False\<rparr> of
                 Inl e \<Rightarrow>
                   [PostMessages \<lparr>MessageResponse.chat_id = Message.chat_id msg, text' = webhook_apology,
                 reply_to_message_id = Some (message_id msg),
                 parse_mode = Some (lit ''Markdown''), disable_web_page_preview = False\<rparr>]
               | Inr r \<Rightarrow> []))
         \<and> filter is_PostMessages t2 = []"
proof -
  from response_text_for_cases
    [of env "from_user msg" "strip txt" "[PostActions (Message.chat_id msg)]"] assms(5)
  have nop: "filter is_PostMessages t2 = []" by auto
  have r: "response_text_for env (from_user msg) (strip txt) ([] @ [PostActions (Message.chat_id msg)])
           = (Inr response_text, t2)"
    using assms(5) by simp
  have body: "process_message_try g env event [] =
     (case post_messages env 0
            \<lparr>MessageResponse.chat_id = Message.chat_id msg, text' = response_text,
                 reply_to_message_id = Some (message_id msg),
                 parse_mode = Some (lit ''Markdown''), disable_web_page_preview = False\<rparr> of
        Inl e \<Rightarrow> Inl e | Inr r \<Rightarrow> Inr (),
      t2 @ [PostMessages \<lparr>MessageResponse.chat_id = Message.chat_id msg, text' = response_text,
                 reply_to_message_id = Some (message_id msg),
                 parse_mode = Some (lit ''Markdown''), disable_web_page_preview = False\<rparr>])"
    using process_message_try_text [OF assms(1) assms(2) assms(3) assms(4) r] nop by simp
  show ?thesis
    using body nop assms(1)
    by (simp add: process_message_def send_text_message_def send_message_eq split: sum.split)
qed

subsection \<open>Messages without text\<close>

text \<open>
  Claim C1, as amended. For a message event whose text is absent (null) or the empty
  string, \<open>process_message\<close> returns at once: the trace is unchanged, so there is no
  typing indicator, no run of the provider and no delivery, and nothing is raised.
\<close>

theorem process_message_no_text:
  assumes "WebhookEvent.message event = Some msg"
    and "Message.text' msg = None \<or> Message.text' msg = Some []"
  shows "process_message g env event t = (Inr (), t)"
  using assms by (auto simp: process_message_def process_message_try_def return_io_def)

theorem process_message_no_text_witness:
  "process_message process_start env_ok (sample_event None) [] = (Inr (), [])
   \<and> process_message process_start env_ok (sample_event (Some [])) [] = (Inr (), [])"
  using process_message_no_text [of "sample_event None" "sample_message None" process_start env_ok "[]"]
    process_message_no_text
      [of "sample_event (Some [])" "sample_message (Some [])" process_start env_ok "[]"]
  by (simp add: sample_event_def sample_message_def)

text \<open>
  A text of three spaces passes the check at line 91, which looks at the text before it
  is stripped, and the task goes on: in a process that has just started, the call of
  \<open>get_yoruba_agent\<close> raises and the apology is delivered to the chat.
\<close>

theorem whitespace_only_text_counterexample:
  "list_all isspace (lit ''   '')
   \<and> process_message process_start env_ok (sample_event (Some (lit ''   ''))) [] =
       (Inr (),
        [PostMessages \<lparr>MessageResponse.chat_id = lit ''C1'', text' = webhook_apology,
            reply_to_message_id = Some (lit ''M1''),
            parse_mode = Some (lit ''Markdown''), disable_web_page_preview = False\<rparr>])"
proof -
  have ne: "lit ''   '' \<noteq> []" by (simp add: lit_spaces)
  have "process_message process_start env_ok (sample_event (Some (lit ''   ''))) [] =
       (Inr (),
        [PostMessages \<lparr>MessageResponse.chat_id = Message.chat_id (sample_message (Some (lit ''   ''))),
            text' = webhook_apology,
            reply_to_message_id = Some (message_id (sample_message (Some (lit ''   '')))),
            parse_mode = Some (lit ''Markdown''), disable_web_page_preview = False\<rparr>])"
    by (rule process_message_no_agent [of _ _ "lit ''   ''"])
      (simp_all add: sample_event_def sample_message_def process_start_def ne)
  then show ?thesis
    by (simp add: lit_spaces isspace_32 sample_message_def)
qed

subsection \<open>Failure of the provider\<close>

text \<open>
  Claim C3. When the run of the provider raises, whatever the exception, the question
  and the user context, \<open>get_response\<close> returns the fixed apology and raises nothing.
\<close>

theorem get_response_provider_failure:
  assumes "agent_run env (enhanced_question question user_context) = Inl e"
  shows "get_response env question user_context t =
           (Inr agent_apology, t @ [AgentRun (enhanced_question question user_context)])"
  using assms by (simp add: get_response_eq)

theorem get_response_provider_failure_witness:
  "get_response env_down (lit ''Who was Oduduwa?'') None []
     = (Inr agent_apology, [AgentRun (lit ''Who was Oduduwa?'')])"
  using get_response_provider_failure [of env_down "lit ''Who was Oduduwa?''" None "AgentRunError (lit ''timeout'')" "[]"]
  by (simp add: env_down_def enhanced_question_def)

subsection \<open>Failure of the delivery\<close>

text \<open>
  Claim C4. For a message event with a text, \<open>process_message\<close> always returns without
  raising, and its deliveries are these. When the reply is delivered (an agent instance
  exists) and that delivery, the first POST to /messages of the task, fails, exactly one
  more delivery follows, of the fixed apology, to the same chat and in reply to the same
  message, whatever its own outcome; when it succeeds, nothing follows. When the global
  instance is \<open>None\<close>, as in every process of this repository, the reply is never
  delivered and the one delivery of the apology is the only one.
\<close>

theorem main_delivery_failure_one_fallback:
  assumes "WebhookEvent.message event = Some msg" "Message.text' msg = Some txt" "txt \<noteq> []"
    and "response_text_for env (from_user msg) (strip txt) [PostActions (Message.chat_id msg)]
           = (Inr response_text, t2)"
  shows "process_message g env event [] =
           (Inr (),
            case agent_instance g of
              None \<Rightarrow>
                [PostMessages \<lparr>MessageResponse.chat_id = Message.chat_id msg, text' = webhook_apology,
                 reply_to_message_id = Some (message_id msg),
                 parse_mode = Some (lit ''Markdown''), disable_web_page_preview = False\<rparr>]
            | Some agent \<Rightarrow>
                t2 @ [PostMessages \<lparr>MessageResponse.chat_id = Message.chat_id msg, text' = response_text,
                 reply_to_message_id = Some (message_id msg),
                 parse_mode = Some (lit ''Markdown''), disable_web_page_preview = False\<rparr>]
                @ (case post_messages env 0
                          \<lparr>MessageResponse.chat_id = Message.chat_id msg, text' = response_text,
                 reply_to_message_id = Some (message_id msg),
                 parse_mode = Some (lit ''Markdown''), disable_web_page_preview = False\<rparr> of
                     Inl e \<Rightarrow>
                       [PostMessages \<lparr>MessageResponse.chat_id = Message.chat_id msg, text' = webhook_apology,
                 reply_to_message_id = Some (message_id msg),
                 parse_mode = Some (lit ''Markdown''), disable_web_page_preview = False\<rparr>]
                   | Inr r \<Rightarrow> []))
         \<and> filter is_PostMessages t2 = []"
proof (cases "agent_instance g")
  case None
  from response_text_for_cases
    [of env "from_user msg" "strip txt" "[PostActions (Message.chat_id msg)]"] assms(4)
  have "filter is_PostMessages t2 = []" by auto
  then show ?thesis
    using process_message_no_agent [OF assms(1) assms(2) assms(3) None, of env] None by simp
next
  case (Some agent)
  then show ?thesis
    using process_message_with_agent [OF assms(1) assms(2) assms(3) Some assms(4)] by simp
qed

theorem main_delivery_failure_one_fallback_witness:
  "process_message process_with_agent env_down (sample_event (Some (lit ''hi''))) [] =
     (Inr (),
      [PostActions (lit ''C1''),
       PostMessages \<lparr>MessageResponse.chat_id = lit ''C1'', text' = get_greeting_response,
          reply_to_message_id = Some (lit ''M1''),
          parse_mode = Some (lit ''Markdown''), disable_web_page_preview = False\<rparr>,
       PostMessages \<lparr>MessageResponse.chat_id = lit ''C1'', text' = webhook_apology,
          reply_to_message_id = Some (lit ''M1''),
          parse_mode = Some (lit ''Markdown''), disable_web_page_preview = False\<rparr>])
   \<and> process_message process_start env_down (sample_event (Some (lit ''hi''))) [] =
     (Inr (),
      [PostMessages \<lparr>MessageResponse.chat_id = lit ''C1'', text' = webhook_apology,
          reply_to_message_id = Some (lit ''M1''),
          parse_mode = Some (lit ''Markdown''), disable_web_page_preview = False\<rparr>])"
proof -
  have ne: "lit ''hi'' \<noteq> []" by (simp add: lit_hi)
  have r: "response_text_for env_down (from_user (sample_message (Some (lit ''hi'')))) (strip (lit ''hi''))
             [PostActions (Message.chat_id (sample_message (Some (lit ''hi''))))]
           = (Inr get_greeting_response, [PostActions (lit ''C1'')])"
    by (simp add: strip_hi response_text_for_def intent_hi return_io_def sample_message_def)
  have e: "WebhookEvent.message (sample_event (Some (lit ''hi''))) = Some (sample_message (Some (lit ''hi'')))"
    by (simp add: sample_event_def)
  have x: "Message.text' (sample_message (Some (lit ''hi''))) = Some (lit ''hi'')"
    by (simp add: sample_message_def)
  have p: "post_messages env_down 0
       \<lparr>MessageResponse.chat_id = Message.chat_id (sample_message (Some (lit ''hi''))),
        text' = get_greeting_response,
        reply_to_message_id = Some (message_id (sample_message (Some (lit ''hi'')))),
        parse_mode = Some (lit ''Markdown''), disable_web_page_preview = False\<rparr>
      = Inl (HTTPStatusError 500)"
    by (simp add: env_down_def)
  from main_delivery_failure_one_fallback [OF e x ne r, of process_with_agent] p
  have a: "process_message process_with_agent env_down (sample_event (Some (lit ''hi''))) [] =
     (Inr (),
      [PostActions (lit ''C1''),
       PostMessages \<lparr>MessageResponse.chat_id = lit ''C1'', text' = get_greeting_response,
          reply_to_message_id = Some (lit ''M1''),
          parse_mode = Some (lit ''Markdown''), disable_web_page_preview = False\<rparr>,
       PostMessages \<lparr>MessageResponse.chat_id = lit ''C1'', text' = webhook_apology,
          reply_to_message_id = Some (lit ''M1''),
          parse_mode = Some (lit ''Markdown''), disable_web_page_preview = False\<rparr>])"
    by (simp add: process_with_agent_def sample_message_def)
  from main_delivery_failure_one_fallback [OF e x ne r, of process_start]
  have b: "process_message process_start env_down (sample_event (Some (lit ''hi''))) [] =
     (Inr (),
      [PostMessages \<lparr>MessageResponse.chat_id = lit ''C1'', text' = webhook_apology,
          reply_to_message_id = Some (lit ''M1''),
          parse_mode = Some (lit ''Markdown''), disable_web_page_preview = False\<rparr>])"
    by (simp add: process_start_def sample_message_def)
  from a b show ?thesis by simp
qed

subsection \<open>The greeting scenario\<close>

text \<open>
  Claim C9, at its input. For a message event with text "hi", chat "C1" and sender "U1",
  the handler answers with a success acknowledgment and schedules the background task.
  In a process whose global instance is \<open>None\<close>, the task then sends no typing indicator
  and no greeting: the call of \<open>get_yoruba_agent\<close> raises, and the only delivery is the
  apology, to "C1" and in reply to the message.
\<close>

theorem greeting_scenario_apology_only:
  assumes "event_type event = MESSAGE" and "WebhookEvent.message event = Some msg"
    and "Message.text' msg = Some (lit ''hi'')" and "Message.chat_id msg = lit ''C1''"
    and "id' (from_user msg) = lit ''U1''"
    and "agent_instance g = None"
  shows "handle_telex_webhook event request =
           (Inr \<lparr>success = True,
                 ActionResponse.message = Some (lit ''Message received and being processed''),
                 ActionResponse.data = []\<rparr>,
            [process_message_task event])
         \<and> run_task g env (process_message_task event) =
             [PostMessages \<lparr>MessageResponse.chat_id = lit ''C1'', text' = webhook_apology,
                reply_to_message_id = Some (message_id msg),
                parse_mode = Some (lit ''Markdown''), disable_web_page_preview = False\<rparr>]"
proof -
  have ne: "lit ''hi'' \<noteq> []" by (simp add: lit_hi)
  have h: "handle_telex_webhook event request =
           (Inr \<lparr>success = True,
                 ActionResponse.message = Some (lit ''Message received and being processed''),
                 ActionResponse.data = []\<rparr>,
            [process_message_task event])"
    using assms(1,2) by (simp add: handle_telex_webhook_def)
  have t: "run_task g env (process_message_task event) =
             [PostMessages \<lparr>MessageResponse.chat_id = lit ''C1'', text' = webhook_apology,
                reply_to_message_id = Some (message_id msg),
                parse_mode = Some (lit ''Markdown''), disable_web_page_preview = False\<rparr>]"
    using process_message_no_agent [OF assms(2) assms(3) ne assms(6), of env] assms(4) by simp
  from h t show ?thesis by simp
qed

theorem greeting_scenario_apology_only_witness:
  "handle_telex_webhook (sample_event (Some (lit ''hi''))) \<lparr>headers = [], body = []\<rparr> =
           (Inr \<lparr>success = True,
                 ActionResponse.message = Some (lit ''Message received and being processed''),
                 ActionResponse.data = []\<rparr>,
            [process_message_task (sample_event (Some (lit ''hi'')))])
   \<and> run_task process_start env_ok (process_message_task (sample_event (Some (lit ''hi'')))) =
             [PostMessages \<lparr>MessageResponse.chat_id = lit ''C1'', text' = webhook_apology,
                reply_to_message_id = Some (lit ''M1''),
                parse_mode = Some (lit ''Markdown''), disable_web_page_preview = False\<rparr>]"
  using greeting_scenario_apology_only
    [of "sample_event (Some (lit ''hi''))" "sample_message (Some (lit ''hi''))" process_start
        "\<lparr>headers = [], body = []\<rparr>" env_ok]
  by (simp add: sample_event_def sample_message_def sample_user_def process_start_def)

subsection \<open>A message event without a message\<close>

text \<open>
  Claim C10. An event of type MESSAGE whose message is null falls through to the last
  branch of the handler: the response has success true and the text "Event type not
  handled", and no background task is scheduled.
\<close>

theorem message_without_body_not_handled:
  assumes "event_type event = MESSAGE" and "WebhookEvent.message event = None"
  shows "handle_telex_webhook event request =
           (Inr \<lparr>success = True, ActionResponse.message = Some (lit ''Event type not handled''),
                 ActionResponse.data = []\<rparr>, [])"
  using assms by (simp add: handle_telex_webhook_def)

theorem message_without_body_not_handled_witness:
  "handle_telex_webhook \<lparr>event_id = lit ''E1'', event_type = MESSAGE, WebhookEvent.message = None\<rparr>
      \<lparr>headers = [], body = []\<rparr>
   = (Inr \<lparr>success = True, ActionResponse.message = Some (lit ''Event type not handled''),
            ActionResponse.data = []\<rparr>, [])"
  using message_without_body_not_handled
    [of "\<lparr>event_id = lit ''E1'', event_type = MESSAGE, WebhookEvent.message = None\<rparr>" "\<lparr>headers = [], body = []\<rparr>"]
  by simp

subsection \<open>Choice of the reply\<close>

lemma dropWhile_all_prefix: "list_all P ws \<Longrightarrow> dropWhile P (ws @ xs) = dropWhile P xs"
  by (induction ws) simp_all

lemma dropWhile_all_Nil: "list_all P xs \<Longrightarrow> dropWhile P xs = []"
  by (induction xs) simp_all

lemma strip_padding:
  assumes "list_all isspace ws1" and "list_all isspace ws2"
  shows "strip (ws1 @ text @ ws2) = strip text"
proof (cases "list_all isspace text")
  case True
  then have "list_all isspace (ws1 @ text @ ws2)" using assms by simp
  then show ?thesis using True by (simp add: strip_def dropWhile_all_Nil)
next
  case False
  then obtain x where x: "x \<in> set text" "\<not> isspace x"
    by (auto simp: list_all_iff)
  have r: "list_all isspace (rev ws2)" using assms(2) by (simp add: list_all_iff)
  have "dropWhile isspace (ws1 @ text @ ws2) = dropWhile isspace text @ ws2"
    using assms(1) x by (simp add: dropWhile_all_prefix dropWhile_append1)
  then have "rev (dropWhile isspace (ws1 @ text @ ws2)) = rev ws2 @ rev (dropWhile isspace text)"
    by simp
  then show ?thesis
    using r by (simp add: strip_def dropWhile_all_prefix)
qed

lemma isspace_upper: "isspace (if 97 \<le> c \<and> c \<le> 122 then c - 32 else c) = isspace c"
proof (cases "97 \<le> c \<and> c \<le> 122")
  case True
  then have "\<not> isspace c" "\<not> isspace (c - 32)" by (auto simp: isspace_def)
  with True show ?thesis by simp
next
  case False
  then show ?thesis by auto
qed

lemma lower_cp_upper: "lower_cp (if 97 \<le> c \<and> c \<le> 122 then c - 32 else c) = lower_cp c"
proof (cases "97 \<le> c \<and> c \<le> 122")
  case True
  then have "lower_cp c = [c]" "lower_cp (c - 32) = [c]" by (auto simp: lower_cp_def)
  with True show ?thesis by simp
next
  case False
  then show ?thesis by auto
qed

lemma lower_upper: "lower (map (\<lambda>c. if 97 \<le> c \<and> c \<le> 122 then c - 32 else c) s) = lower s"
  by (induction s) (simp_all add: lower_def lower_cp_upper)

lemma dropWhile_upper:
  "dropWhile isspace (map (\<lambda>c. if 97 \<le> c \<and> c \<le> 122 then c - 32 else c) s)
     = map (\<lambda>c. if 97 \<le> c \<and> c \<le> 122 then c - 32 else c) (dropWhile isspace s)"
proof (induction s)
  case Nil
  show ?case by simp
next
  case (Cons a s)
  show ?case
    using Cons.IH isspace_upper [of a] by (cases "isspace a") simp_all
qed

lemma strip_upper:
  "strip (map (\<lambda>c. if 97 \<le> c \<and> c \<le> 122 then c - 32 else c) s)
     = map (\<lambda>c. if 97 \<le> c \<and> c \<le> 122 then c - 32 else c) (strip s)"
  by (simp only: strip_def dropWhile_upper rev_map)

lemma intent_of_lower: "lower a = lower b \<Longrightarrow> intent_of a = intent_of b"
  by (simp add: intent_of_def)

lemma intent_examples:
  "intent_of (strip (lit ''  HELLO '')) = Greeting"
  "intent_of (strip (lit ''What can you do'')) = Help"
  "intent_of (strip (lit ''Who was Oduduwa?'')) = General"
  by (simp_all add: intent_of_def strip_def lower_def lit_def isspace_def lower_cp_def)

text \<open>
  Claim C5. The branch taken for a message text is a function of its stripped,
  lower-cased form: Greeting when that form is one of the five greeting phrases, Help
  when it is one of the three help phrases, General otherwise. "  HELLO " is a Greeting
  and "What can you do" is a Help. Whitespace around the text and the case of ASCII
  letters do not change the branch.
\<close>

theorem classification:
  "intent_of (strip text) =
     (if lower (strip text) \<in> {lit ''/start'', lit ''hello'', lit ''hi'', lit ''hey'', lit ''greetings''}
      then Greeting
      else if lower (strip text) \<in> {lit ''/help'', lit ''help'', lit ''what can you do''}
      then Help
      else General)
   \<and> intent_of (strip (lit ''  HELLO '')) = Greeting
   \<and> intent_of (strip (lit ''What can you do'')) = Help
   \<and> intent_of (strip (lit ''Who was Oduduwa?'')) = General
   \<and> (list_all isspace ws1 \<and> list_all isspace ws2 \<longrightarrow>
        intent_of (strip (ws1 @ text @ ws2)) = intent_of (strip text))
   \<and> intent_of (strip (map (\<lambda>c. if 97 \<le> c \<and> c \<le> 122 then c - 32 else c) text))
        = intent_of (strip text)"
proof (intro conjI impI)
  show "intent_of (strip text) =
     (if lower (strip text) \<in> {lit ''/start'', lit ''hello'', lit ''hi'', lit ''hey'', lit ''greetings''}
      then Greeting
      else if lower (strip text) \<in> {lit ''/help'', lit ''help'', lit ''what can you do''}
      then Help
      else General)"
    by (simp add: intent_of_def)
next
  assume "list_all isspace ws1 \<and> list_all isspace ws2"
  then show "intent_of (strip (ws1 @ text @ ws2)) = intent_of (strip text)"
    by (simp add: strip_padding)
next
  show "intent_of (strip (map (\<lambda>c. if 97 \<le> c \<and> c \<le> 122 then c - 32 else c) text))
        = intent_of (strip text)"
    by (rule intent_of_lower) (simp only: strip_upper lower_upper)
qed (rule intent_examples)+

theorem classification_witness:
  "intent_of (strip (lit ''  '' @ lit ''hello'' @ lit '' '')) = Greeting
   \<and> intent_of (strip (lit ''hello'')) = Greeting"
proof -
  have w: "list_all isspace (lit ''  '') \<and> list_all isspace (lit '' '')"
    by (simp add: lit_def isspace_def)
  have h: "lower (strip (lit ''hello'')) = lit ''hello''"
    by (simp add: strip_def lower_def lit_def isspace_def lower_cp_def)
  from classification [of "lit ''hello''" "lit ''  ''" "lit '' ''"] w h show ?thesis
    by simp
qed

subsection \<open>The prompt\<close>

lemma enhanced_question_name:
  assumes "d \<noteq> []" and "map_of d (lit ''name'') = Some (PyStr name)"
  shows "enhanced_question question (Some d) = lit ''Question from '' @ name @ lit '': '' @ question"
  using assms by (simp add: enhanced_question_def dict_get_def)

lemma user_context_name:
  "map_of (user_context_of user) (lit ''name'') =
     Some (PyStr (case first_name user of
                    Some (c # cs) \<Rightarrow> c # cs
                  | _ \<Rightarrow> (case username user of Some (c # cs) \<Rightarrow> c # cs | _ \<Rightarrow> lit ''friend'')))"
  by (simp add: user_context_of_def py_or_def split: option.split list.split)

text \<open>
  Claim C8. The prompt given to the provider is the enhanced question and nothing else.
  Without a user context it is the question itself. With a user context that names the
  user it is the question with the one prefix "Question from <name>: ". For the context
  that \<open>process_message\<close> builds, the name is the first name when it is not empty,
  else the username when it is not empty, else "friend".
\<close>

theorem prompt_attribution:
  "snd (get_response env question user_context t)
     = t @ [AgentRun (enhanced_question question user_context)]
   \<and> enhanced_question question None = question
   \<and> (d \<noteq> [] \<and> map_of d (lit ''name'') = Some (PyStr name) \<longrightarrow>
        enhanced_question question (Some d) = lit ''Question from '' @ name @ lit '': '' @ question)
   \<and> enhanced_question question (Some (user_context_of user)) =
        lit ''Question from ''
        @ (case first_name user of
             Some (c # cs) \<Rightarrow> c # cs
           | _ \<Rightarrow> (case username user of Some (c # cs) \<Rightarrow> c # cs | _ \<Rightarrow> lit ''friend''))
        @ lit '': '' @ question"
proof -
  have ne: "user_context_of user \<noteq> []" by (simp add: user_context_of_def)
  show ?thesis
    using enhanced_question_name [OF ne user_context_name]
    by (simp add: get_response_eq enhanced_question_name) (simp add: enhanced_question_def)
qed

theorem prompt_attribution_witness:
  "snd (get_response env_ok (lit ''Who was Oduduwa?'')
          (Some [(lit ''name'', PyStr (lit ''Ade'')), (lit ''user_id'', PyStr (lit ''U1''))]) [])
     = [AgentRun (lit ''Question from Ade: Who was Oduduwa?'')]
   \<and> enhanced_question (lit ''Who was Oduduwa?'') (Some (user_context_of sample_user))
     = lit ''Question from friend: Who was Oduduwa?''"
proof -
  have n: "map_of [(lit ''name'', PyStr (lit ''Ade'')), (lit ''user_id'', PyStr (lit ''U1''))]
             (lit ''name'') = Some (PyStr (lit ''Ade''))"
    by simp
  have j: "lit ''Question from '' @ lit ''Ade'' @ lit '': '' @ lit ''Who was Oduduwa?''
             = lit ''Question from Ade: Who was Oduduwa?''"
      "lit ''Question from '' @ lit ''friend'' @ lit '': '' @ lit ''Who was Oduduwa?''
             = lit ''Question from friend: Who was Oduduwa?''"
    by (simp_all add: lit_def)
  from prompt_attribution
    [of env_ok "lit ''Who was Oduduwa?''"
        "Some [(lit ''name'', PyStr (lit ''Ade'')), (lit ''user_id'', PyStr (lit ''U1''))]" "[]"
        "[(lit ''name'', PyStr (lit ''Ade'')), (lit ''user_id'', PyStr (lit ''U1''))]"
        "lit ''Ade''" sample_user] n j
  show ?thesis by (simp add: sample_user_def)
qed

subsection \<open>Validation of the signature\<close>

lemma hex_digit_ascii: "n < 16 \<Longrightarrow> hex_digit n < 128"
  by (simp add: hex_digit_def)

lemma byte_lt: "unat (b :: byte) < 256"
  using unsigned_less [of b, where 'a = nat] by simp

lemma hexdigest_Nil: "hexdigest [] = []"
  by (simp add: hexdigest_def)

lemma hexdigest_Cons:
  "hexdigest (b # bs) = hex_digit (unat b div 16) # hex_digit (unat b mod 16) # hexdigest bs"
  by (simp add: hexdigest_def)


lemma byte_digits:
  fixes b :: byte
  shows "unat b div 16 < 16" and "unat b mod 16 < 16"
  using byte_lt [of b] by simp_all

lemma hexdigest_ascii: "list_all (\<lambda>c. c < 128) (hexdigest bs)"
  by (induction bs) (simp_all add: hexdigest_Nil hexdigest_Cons hex_digit_ascii byte_digits)

lemma compare_digest_hexdigest:
  "compare_digest signature (hexdigest bs) =
     (if list_all (\<lambda>c. c < 128) signature then Inr (signature = hexdigest bs) else Inl TypeError)"
  by (simp add: compare_digest_def hexdigest_ascii)

lemma validate_configured:
  assumes "secret \<noteq> []" "encode secret = Inr key" "encode payload = Inr msg"
  shows "validate_webhook_signature h secret payload signature
           = (signature = hexdigest (h key msg))"
proof (cases "list_all (\<lambda>c. c < 128) signature")
  case True
  with assms show ?thesis
    by (simp add: validate_webhook_signature_def validate_webhook_signature_try_def
          compare_digest_hexdigest)
next
  case False
  with hexdigest_ascii [of "h key msg"] have "signature \<noteq> hexdigest (h key msg)"
    by auto
  with False assms show ?thesis
    by (simp add: validate_webhook_signature_def validate_webhook_signature_try_def
          compare_digest_hexdigest)
qed

lemma validate_error:
  assumes "secret \<noteq> []"
    and "encode secret = Inl e \<or> encode payload = Inl e \<or> \<not> list_all (\<lambda>c. c < 128) signature"
  shows "validate_webhook_signature h secret payload signature = False"
proof (cases "encode secret")
  case (Inl a)
  with assms(1) show ?thesis
    by (simp add: validate_webhook_signature_def validate_webhook_signature_try_def)
next
  case key: (Inr key)
  show ?thesis
  proof (cases "encode payload")
    case (Inl a)
    with assms(1) key show ?thesis
      by (simp add: validate_webhook_signature_def validate_webhook_signature_try_def)
  next
    case (Inr msg)
    with assms key have "\<not> list_all (\<lambda>c. c < 128) signature" by simp
    with assms(1) key Inr show ?thesis
      by (simp add: validate_webhook_signature_def validate_webhook_signature_try_def
            compare_digest_hexdigest)
  qed
qed

lemma validate_other_signature:
  assumes "secret \<noteq> []" and "validate_webhook_signature h secret payload signature"
    and "signature' \<noteq> signature"
  shows "validate_webhook_signature h secret payload signature' = False"
proof (cases "encode secret")
  case (Inl a)
  with assms(1) show ?thesis
    by (simp add: validate_webhook_signature_def validate_webhook_signature_try_def)
next
  case key: (Inr key)
  show ?thesis
  proof (cases "encode payload")
    case (Inl a)
    with assms(1) key show ?thesis
      by (simp add: validate_webhook_signature_def validate_webhook_signature_try_def)
  next
    case (Inr msg)
    from assms(2) validate_configured [OF assms(1) key Inr, of h signature]
    have "signature = hexdigest (h key msg)" by simp
    with assms(3) validate_configured [OF assms(1) key Inr, of h signature']
    show ?thesis by simp
  qed
qed

text \<open>
  What \<open>validate_webhook_signature\<close> decides by itself: it is true without a secret; with
  a secret it is true exactly when the signature is the hexadecimal digest of the keyed
  hash (lemma \<open>validate_configured\<close>); it is false, and raises nothing, when an encoding
  raises or the signature is not ASCII (lemma \<open>validate_error\<close>); after a valid
  signature every other signature is refused (lemma \<open>validate_other_signature\<close>).
  Whether a changed payload is refused is a property of the keyed hash, which is a
  parameter here: it is refused exactly when its digest is not the signature.
\<close>

lemma validate_no_secret: "validate_webhook_signature h [] payload signature = True"
  by (simp add: validate_webhook_signature_def)

subsection \<open>Event types outside the enumeration\<close>

lemma EventType_of_value_None:
  assumes "v \<notin> set (map EventType_value [MESSAGE, MESSAGE_DELIVERED, MESSAGE_READ, USER_JOINED, USER_LEFT])"
  shows "EventType_of_value v = None"
  using assms by (auto simp: EventType_of_value_def)

lemma lit_edited_not_member:
  "lit ''message.edited'' \<notin> set (map EventType_value [MESSAGE, MESSAGE_DELIVERED, MESSAGE_READ, USER_JOINED, USER_LEFT])"
  by simp (simp add: lit_def)

text \<open>
  The time stamp in the dumped \<open>ErrorResponse\<close> cannot be serialised, so
  \<open>validation_exception_handler\<close> raises instead of returning its 422 response.
\<close>

lemma validation_exception_handler_raises: "validation_exception_handler errors = Inl TypeError"
  by (simp add: validation_exception_handler_def JSONResponse_def model_dump_def)

lemma validate_WebhookEvent_unknown:
  assumes "raw_event_type raw = Some v"
    and "v \<notin> set (map EventType_value [MESSAGE, MESSAGE_DELIVERED, MESSAGE_READ, USER_JOINED, USER_LEFT])"
  shows "validate_WebhookEvent raw = Inl (lit ''event_id'')
         \<or> validate_WebhookEvent raw = Inl (lit ''event_type'')"
  using assms(1) EventType_of_value_None [OF assms(2)]
  by (simp add: validate_WebhookEvent_def split: option.split)

text \<open>
  Claim C2, as amended. A request whose \<open>event_type\<close> is not the value of one of the
  five members does not reach the route handler: validation fails, the response is not
  a success acknowledgment, and no background task is scheduled, so there is no delivery
  and no run of the provider.
\<close>

theorem unknown_event_type_rejected:
  assumes "raw_event_type raw = Some v"
    and "v \<notin> set (map EventType_value [MESSAGE, MESSAGE_DELIVERED, MESSAGE_READ, USER_JOINED, USER_LEFT])"
  shows "(\<forall>event. validate_WebhookEvent raw \<noteq> Inr event)
         \<and> \<not> is_Response200 (fst (post_webhook_telex raw request))
         \<and> snd (post_webhook_telex raw request) = []
         \<and> concat (map (run_task g env) (snd (post_webhook_telex raw request))) = []"
  using validate_WebhookEvent_unknown [OF assms]
  by (auto simp: post_webhook_telex_def validation_exception_handler_raises)

theorem unknown_event_type_rejected_witness:
  "\<not> is_Response200
       (fst (post_webhook_telex (sample_raw (lit ''E2'') (lit ''reaction.added''))
               (sample_request (lit ''E2'') (lit ''reaction.added''))))
   \<and> snd (post_webhook_telex (sample_raw (lit ''E2'') (lit ''reaction.added''))
             (sample_request (lit ''E2'') (lit ''reaction.added''))) = []"
proof -
  have n: "lit ''reaction.added'' \<notin> set (map EventType_value [MESSAGE, MESSAGE_DELIVERED, MESSAGE_READ, USER_JOINED, USER_LEFT])"
    by simp (simp add: lit_def)
  have t: "raw_event_type (sample_raw (lit ''E2'') (lit ''reaction.added'')) = Some (lit ''reaction.added'')"
    by (simp add: sample_raw_def)
  from unknown_event_type_rejected
    [OF t n, of "sample_request (lit ''E2'') (lit ''reaction.added'')" process_start env_ok]
  show ?thesis by simp
qed

text \<open>
  The event type "message.edited" is none of the five values. The request is not
  acknowledged with success: validation fails, \<open>validation_exception_handler\<close> raises,
  and the answer is the server's status 500.
\<close>

theorem unknown_event_type_counterexample:
  "lit ''message.edited'' \<notin> set (map EventType_value [MESSAGE, MESSAGE_DELIVERED, MESSAGE_READ, USER_JOINED, USER_LEFT])
   \<and> post_webhook_telex (sample_raw (lit ''E1'') (lit ''message.edited''))
       (sample_request (lit ''E1'') (lit ''message.edited''))
     = (Response500, [])"
  using lit_edited_not_member EventType_of_value_None [OF lit_edited_not_member]
  by (simp add: post_webhook_telex_def validate_WebhookEvent_def sample_raw_def
        validation_exception_handler_raises)

subsection \<open>The signature of a request\<close>

text \<open>
  Claim C7, as amended. The route handler makes no signature check: its response and the
  background tasks it schedules are the same for every request, whatever the signature
  header and the body, and so is the answer of the endpoint.
\<close>

theorem handler_ignores_request:
  "handle_telex_webhook event request = handle_telex_webhook event request'
   \<and> post_webhook_telex raw request = post_webhook_telex raw request'"
  by (simp add: handle_telex_webhook_def post_webhook_telex_def split: sum.split)

theorem handler_ignores_request_witness:
  "handle_telex_webhook (sample_event (Some (lit ''hi'')))
     \<lparr>headers = [(lit ''X-Telex-Signature'', lit ''bad'')], body = lit ''{}''\<rparr>
   = handle_telex_webhook (sample_event (Some (lit ''hi''))) \<lparr>headers = [], body = []\<rparr>"
  using handler_ignores_request
    [of "sample_event (Some (lit ''hi''))"
        "\<lparr>headers = [(lit ''X-Telex-Signature'', lit ''bad'')], body = lit ''{}''\<rparr>"
        "\<lparr>headers = [], body = []\<rparr>"]
  by simp

text \<open>
  With the secret "s3cret" configured, the signature "bad" is not valid for the body,
  yet the handler acknowledges the message event with success and schedules its
  processing.
\<close>

theorem invalid_signature_routed_counterexample:
  "validate_webhook_signature sample_hmac (lit ''s3cret'') (lit ''{}'') (lit ''bad'') = False
   \<and> handle_telex_webhook (sample_event (Some (lit ''hi'')))
        \<lparr>headers = [(lit ''X-Telex-Signature'', lit ''bad'')], body = lit ''{}''\<rparr>
     = (Inr \<lparr>success = True,
              ActionResponse.message = Some (lit ''Message received and being processed''),
              ActionResponse.data = []\<rparr>,
        [process_message_task (sample_event (Some (lit ''hi'')))])"
proof -
  have "validate_webhook_signature sample_hmac (lit ''s3cret'') (lit ''{}'') (lit ''bad'') = False"
    by (simp add: validate_webhook_signature_def validate_webhook_signature_try_def lit_def
          encode_cp_def sample_hmac_def hexdigest_def compare_digest_def hex_digit_def)
  moreover have "handle_telex_webhook (sample_event (Some (lit ''hi'')))
        \<lparr>headers = [(lit ''X-Telex-Signature'', lit ''bad'')], body = lit ''{}''\<rparr>
     = (Inr \<lparr>success = True,
              ActionResponse.message = Some (lit ''Message received and being processed''),
              ActionResponse.data = []\<rparr>,
        [process_message_task (sample_event (Some (lit ''hi'')))])"
    by (simp add: handle_telex_webhook_def sample_event_def)
  ultimately show ?thesis by simp
qed

end
